theory Spec2Isabelle
  imports Main "HOL-Library.Multiset"
begin

section \<open>Persisted schema\<close>

text \<open>
  The five tables of \<^verbatim>\<open>db/migrations/001_schema.sql\<close>, one record per row, one list per
  table (rows in insertion order). Columns no modelled query reads (\<^verbatim>\<open>username\<close>,
  \<^verbatim>\<open>asset_types.name\<close>, \<^verbatim>\<open>wallets.created_at/updated_at\<close>, the serial
  \<^verbatim>\<open>ledger_entries.id\<close>, \<^verbatim>\<open>idempotency_keys.created_at\<close>) are left out.
\<close>

record asset_type_row =
  at_id :: int
  at_code :: string

datatype user_type = User | System

record user_row =
  u_id :: int
  u_type :: user_type

record wallet_row =
  w_id :: int
  w_user_id :: int
  w_asset_type_id :: int
  w_balance :: int

datatype entry_type = DEBIT | CREDIT

record ledger_row =
  le_transaction_id :: string
  le_wallet_id :: int
  le_entry_type :: entry_type
  le_amount :: int
  le_balance_after :: int
  le_description :: string
  le_created_at :: nat

text \<open>The object \<^verbatim>\<open>responseBody\<close> of \<^verbatim>\<open>executeTransfer\<close> (walletService.js, lines 162-170).\<close>

record response_body =
  transactionId :: string
  sourceWalletId :: int
  destWalletId :: int
  amount :: int
  newSourceBalance :: int
  newDestBalance :: int
  description :: string

text \<open>
  A row of \<^verbatim>\<open>idempotency_keys\<close>. The column \<^verbatim>\<open>response_body\<close> is JSONB holding
  \<^verbatim>\<open>JSON.stringify(responseBody)\<close>; the driver parses it back on read. The model keeps the
  object itself, so the order of keys in the JSON text is outside the model.
\<close>

record idempotency_row =
  ik_key :: string
  ik_response_code :: int
  ik_response_body :: response_body

record db =
  asset_types :: "asset_type_row list"
  users :: "user_row list"
  wallets :: "wallet_row list"
  ledger_entries :: "ledger_row list"
  idempotency_keys :: "idempotency_row list"

section \<open>Errors\<close>

text \<open>
  Errors raised by the database itself: the column type BIGINT, the CHECK constraints of
  \<^verbatim>\<open>wallets.balance\<close> and \<^verbatim>\<open>ledger_entries.amount\<close>, the foreign key of
  \<^verbatim>\<open>ledger_entries.wallet_id\<close>, the primary key of \<^verbatim>\<open>idempotency_keys\<close>, the lengths
  VARCHAR(256) of \<^verbatim>\<open>description\<close> and VARCHAR(128) of \<^verbatim>\<open>key\<close> (a \<open>string\<close> is a list of
  bytes, so the length is exact for ASCII text), and a negative LIMIT or OFFSET.
\<close>

datatype db_violation =
    BigintOutOfRange
  | BalanceCheck
  | AmountCheck
  | WalletForeignKey
  | DuplicateKey
  | ValueTooLong
  | NegativeLimit
  | NegativeOffset

text \<open>
  The errors thrown in walletService.js, with the fields their messages carry.
  \<open>InsufficientBalance available requested\<close> is the error of lines 123-129.
\<close>

datatype error =
    WalletNotFound int string
  | TreasuryWalletNotFound string
  | WalletsNotFound
  | InsufficientBalance int int
  | DbError db_violation

text \<open>\<^verbatim>\<open>err.statusCode || 500\<close> of middleware/errorHandler.js.\<close>

fun errorStatus :: "error \<Rightarrow> int" where
  "errorStatus (WalletNotFound _ _) = 404"
| "errorStatus (TreasuryWalletNotFound _) = 500"
| "errorStatus WalletsNotFound = 404"
| "errorStatus (InsufficientBalance _ _) = 400"
| "errorStatus (DbError _) = 500"

section \<open>JavaScript values\<close>

text \<open>
  \<^verbatim>\<open>Number(b)\<close> for a BigInt \<open>b\<close> is the IEEE double nearest to \<open>b\<close>, ties to the even
  significand. On integers this is rounding to 53 significant bits: \<open>expo53 a\<close> is the
  number of low bits a magnitude \<open>a\<close> loses. (From \<open>2 ^ 1024\<close> on JavaScript gives
  Infinity; such a value is outside BIGINT either way, and the statement that carries
  it is rejected by the database in both cases.)
\<close>

function expo53 :: "int \<Rightarrow> nat" where
  "expo53 a = (if a < 2 ^ 53 then 0 else Suc (expo53 (a div 2)))"
  by pat_completeness auto
termination
  by (relation "measure nat") auto

definition roundToDouble :: "int \<Rightarrow> int" where
  "roundToDouble a =
     (let e = expo53 a; q = a div 2 ^ e; r = a mod 2 ^ e
      in if 2 ^ e < 2 * r \<or> (2 * r = 2 ^ e \<and> odd q) then (q + 1) * 2 ^ e else q * 2 ^ e)"

definition Number :: "int \<Rightarrow> int" where
  "Number b = (if b < 0 then - roundToDouble (- b) else roundToDouble b)"

text \<open>\<^verbatim>\<open>if (idempotencyKey)\<close>: \<^verbatim>\<open>undefined\<close>, \<^verbatim>\<open>null\<close> and the empty string are falsy.\<close>

fun truthy :: "string option \<Rightarrow> bool" where
  "truthy None = False"
| "truthy (Some s) = (s \<noteq> [])"

declare expo53.simps [simp del]

section \<open>The database statements of a transfer\<close>

text \<open>
  The writes \<^verbatim>\<open>executeTransfer\<close> sends with \<^verbatim>\<open>client.query\<close>:
  \<^item> \<open>UpdateBalance v i\<close>: \<^verbatim>\<open>UPDATE wallets SET balance = $1, updated_at = NOW() WHERE id = $2\<close>;
  \<^item> \<open>InsertLedger row\<close>: \<^verbatim>\<open>INSERT INTO ledger_entries (...) VALUES (...)\<close>, the row with
    \<^verbatim>\<open>created_at\<close> already filled in by its default \<^verbatim>\<open>NOW()\<close>;
  \<^item> \<open>InsertIdempotency row\<close>: \<^verbatim>\<open>INSERT INTO idempotency_keys (key, response_code, response_body)\<close>.

  A JavaScript number given as a parameter is taken at its numeric value. (The driver
  sends it as decimal text; below \<open>2 ^ 54\<close> that text denotes the number exactly.)
\<close>

datatype stmt =
    UpdateBalance int int
  | InsertLedger ledger_row
  | InsertIdempotency idempotency_row

definition inBigint :: "int \<Rightarrow> bool" where
  "inBigint v = (- (2 ^ 63) \<le> v \<and> v < 2 ^ 63)"

definition walletExists :: "db \<Rightarrow> int \<Rightarrow> bool" where
  "walletExists d i = (find (\<lambda>w. w_id w = i) (wallets d) \<noteq> None)"

text \<open>The rows of \<^verbatim>\<open>wallets\<close> after \<^verbatim>\<open>SET balance = v ... WHERE id = i\<close>.\<close>

definition setBalance :: "int \<Rightarrow> int \<Rightarrow> wallet_row list \<Rightarrow> wallet_row list" where
  "setBalance v i ws = map (\<lambda>w. if w_id w = i then w\<lparr>w_balance := v\<rparr> else w) ws"

text \<open>
  One statement against the database: the new database, or the error PostgreSQL raises.
  An UPDATE changes every row with the given id; its CHECK is tested only when a row
  is written.
\<close>

fun exec :: "db \<Rightarrow> stmt \<Rightarrow> error + db" where
  "exec d (UpdateBalance v i) =
     (if \<not> inBigint v then Inl (DbError BigintOutOfRange)
      else if walletExists d i \<and> v < 0 then Inl (DbError BalanceCheck)
      else Inr (d\<lparr>wallets := setBalance v i (wallets d)\<rparr>))"
| "exec d (InsertLedger row) =
     (if \<not> inBigint (le_amount row) \<or> \<not> inBigint (le_balance_after row)
        then Inl (DbError BigintOutOfRange)
      else if 256 < length (le_description row) then Inl (DbError ValueTooLong)
      else if le_amount row \<le> 0 then Inl (DbError AmountCheck)
      else if \<not> walletExists d (le_wallet_id row) then Inl (DbError WalletForeignKey)
      else Inr (d\<lparr>ledger_entries := ledger_entries d @ [row]\<rparr>))"
| "exec d (InsertIdempotency row) =
     (if 128 < length (ik_key row) then Inl (DbError ValueTooLong)
      else if find (\<lambda>r. ik_key r = ik_key row) (idempotency_keys d) \<noteq> None
        then Inl (DbError DuplicateKey)
      else Inr (d\<lparr>idempotency_keys := idempotency_keys d @ [row]\<rparr>))"

text \<open>
  Statements in program order; the first error ends the run (the \<^verbatim>\<open>await\<close> throws and
  control passes to the \<^verbatim>\<open>catch\<close> block).
\<close>

fun run :: "db \<Rightarrow> stmt list \<Rightarrow> error + db" where
  "run d [] = Inr d"
| "run d (s # ss) = (case exec d s of Inl err \<Rightarrow> Inl err | Inr d' \<Rightarrow> run d' ss)"

section \<open>Wallet resolution\<close>

text \<open>\<^verbatim>\<open>resolveWalletId\<close> (lines 18-32): the join of wallets and asset types, first row.\<close>

definition resolveWalletId :: "db \<Rightarrow> int \<Rightarrow> string \<Rightarrow> error + int" where
  "resolveWalletId d userId assetCode =
     (case [w_id w. w \<leftarrow> wallets d, a \<leftarrow> asset_types d,
                   at_id a = w_asset_type_id w, w_user_id w = userId, at_code a = assetCode] of
        [] \<Rightarrow> Inl (WalletNotFound userId assetCode)
      | i # _ \<Rightarrow> Inr i)"

text \<open>
  \<^verbatim>\<open>resolveTreasuryWalletId\<close> (lines 37-53): wallets joined with users and asset types,
  \<^verbatim>\<open>user_type = 'system'\<close>, \<^verbatim>\<open>LIMIT 1\<close>. The query has no ORDER BY; the model takes the
  first row in table order.
\<close>

definition resolveTreasuryWalletId :: "db \<Rightarrow> string \<Rightarrow> error + int" where
  "resolveTreasuryWalletId d assetCode =
     (case [w_id w. w \<leftarrow> wallets d, u \<leftarrow> users d, u_id u = w_user_id w,
                   a \<leftarrow> asset_types d, at_id a = w_asset_type_id w,
                   u_type u = System, at_code a = assetCode] of
        [] \<Rightarrow> Inl (TreasuryWalletNotFound assetCode)
      | i # _ \<Rightarrow> Inr i)"

section \<open>The transfer\<close>

datatype flow = Topup | Bonus | Spend

text \<open>
  What a call takes from outside the database: the value \<^verbatim>\<open>uuidv4()\<close> returns in this
  call, the transaction's \<^verbatim>\<open>NOW()\<close>, and the conversion of a number to text that the
  template literals of lines 90, 94 and 99 apply to \<^verbatim>\<open>amount\<close> and \<^verbatim>\<open>userId\<close>.
\<close>

record env =
  uuidv4 :: string
  now :: nat
  toString :: "int \<Rightarrow> string"

text \<open>Lines 86-100: \<open>(sourceWalletId, destWalletId)\<close> by flow.\<close>

fun direction :: "flow \<Rightarrow> int \<Rightarrow> int \<Rightarrow> int \<times> int" where
  "direction Topup userWalletId treasuryWalletId = (treasuryWalletId, userWalletId)"
| "direction Bonus userWalletId treasuryWalletId = (treasuryWalletId, userWalletId)"
| "direction Spend userWalletId treasuryWalletId = (userWalletId, treasuryWalletId)"

fun describe :: "env \<Rightarrow> flow \<Rightarrow> int \<Rightarrow> string \<Rightarrow> int \<Rightarrow> string" where
  "describe e Topup amt assetCode userId =
     ''Top-up: '' @ toString e amt @ '' '' @ assetCode @ '' purchased by user '' @ toString e userId"
| "describe e Bonus amt assetCode userId =
     ''Bonus: '' @ toString e amt @ '' '' @ assetCode @ '' granted to user '' @ toString e userId"
| "describe e Spend amt assetCode userId =
     ''Spend: '' @ toString e amt @ '' '' @ assetCode @ '' spent by user '' @ toString e userId"

text \<open>Lines 82-100: both wallet ids resolved, then ordered by flow.\<close>

definition endpoints :: "db \<Rightarrow> flow \<Rightarrow> int \<Rightarrow> string \<Rightarrow> error + int \<times> int" where
  "endpoints d fl userId assetCode =
     (case resolveWalletId d userId assetCode of
        Inl err \<Rightarrow> Inl err
      | Inr userWalletId \<Rightarrow>
          (case resolveTreasuryWalletId d assetCode of
             Inl err \<Rightarrow> Inl err
           | Inr treasuryWalletId \<Rightarrow> Inr (direction fl userWalletId treasuryWalletId)))"

text \<open>
  Lines 103-108: \<^verbatim>\<open>[sourceWalletId, destWalletId].sort((a, b) => a - b)\<close>, then
  \<^verbatim>\<open>SELECT id, balance FROM wallets WHERE id = ANY($1) ORDER BY id FOR UPDATE\<close>.
\<close>

definition lockOrder :: "int \<Rightarrow> int \<Rightarrow> int list" where
  "lockOrder src dst = sort [src, dst]"

definition selectForUpdate :: "db \<Rightarrow> int list \<Rightarrow> wallet_row list" where
  "selectForUpdate d walletIds = sort_key w_id [w \<leftarrow> wallets d. w_id w \<in> set walletIds]"

text \<open>
  Lines 131-178 as data: the statements of a transfer in the order the code sends them,
  and the response body. \<open>BigInt\<close> of an integer is that integer.
\<close>

definition responseOf ::
  "env \<Rightarrow> flow \<Rightarrow> int \<Rightarrow> string \<Rightarrow> int \<Rightarrow> int \<Rightarrow> int \<Rightarrow> int \<Rightarrow> int \<Rightarrow> response_body" where
  "responseOf e fl userId assetCode amt src dst sourceBalance destBalance =
     \<lparr>transactionId = uuidv4 e,
      sourceWalletId = src,
      destWalletId = dst,
      amount = amt,
      newSourceBalance = Number (sourceBalance - amt),
      newDestBalance = Number (destBalance + amt),
      description = describe e fl amt assetCode userId\<rparr>"

text \<open>The values of the two INSERTs into \<^verbatim>\<open>ledger_entries\<close> (lines 148-159).\<close>

definition debitEntry :: "env \<Rightarrow> response_body \<Rightarrow> ledger_row" where
  "debitEntry e b =
     \<lparr>le_transaction_id = transactionId b, le_wallet_id = sourceWalletId b,
      le_entry_type = DEBIT, le_amount = amount b, le_balance_after = newSourceBalance b,
      le_description = description b, le_created_at = now e\<rparr>"

definition creditEntry :: "env \<Rightarrow> response_body \<Rightarrow> ledger_row" where
  "creditEntry e b =
     \<lparr>le_transaction_id = transactionId b, le_wallet_id = destWalletId b,
      le_entry_type = CREDIT, le_amount = amount b, le_balance_after = newDestBalance b,
      le_description = description b, le_created_at = now e\<rparr>"

text \<open>The values of the INSERT into \<^verbatim>\<open>idempotency_keys\<close> (lines 173-177).\<close>

definition idempotencyRecord :: "string \<Rightarrow> response_body \<Rightarrow> idempotency_row" where
  "idempotencyRecord k b = \<lparr>ik_key = k, ik_response_code = 200, ik_response_body = b\<rparr>"

definition statements :: "env \<Rightarrow> string option \<Rightarrow> response_body \<Rightarrow> stmt list" where
  "statements e idempotencyKey b =
     [UpdateBalance (newSourceBalance b) (sourceWalletId b),
      UpdateBalance (newDestBalance b) (destWalletId b),
      InsertLedger (debitEntry e b),
      InsertLedger (creditEntry e b)]
     @ (if truthy idempotencyKey
          then [InsertIdempotency (idempotencyRecord (the idempotencyKey) b)]
        else [])"

text \<open>
  Lines 81-129: resolution, locking read and balance check. The result is the response
  body the transfer is to produce, or the error thrown.
\<close>

definition prepare ::
  "env \<Rightarrow> db \<Rightarrow> flow \<Rightarrow> int \<Rightarrow> string \<Rightarrow> int \<Rightarrow> error + response_body" where
  "prepare e d fl userId assetCode amt =
     (case endpoints d fl userId assetCode of
        Inl err \<Rightarrow> Inl err
      | Inr (src, dst) \<Rightarrow>
          (let lockedWallets = selectForUpdate d (lockOrder src dst) in
           case (find (\<lambda>w. w_id w = src) lockedWallets, find (\<lambda>w. w_id w = dst) lockedWallets) of
             (Some sourceWallet, Some destWallet) \<Rightarrow>
               if w_balance sourceWallet < amt
                 then Inl (InsufficientBalance (w_balance sourceWallet) amt)
               else Inr (responseOf e fl userId assetCode amt src dst
                           (w_balance sourceWallet) (w_balance destWallet))
           | _ \<Rightarrow> Inl WalletsNotFound))"

record transfer_result =
  idempotent :: bool
  statusCode :: int
  body :: response_body

text \<open>Lines 66-79: the rows of \<^verbatim>\<open>SELECT ... FROM idempotency_keys WHERE key = $1\<close>.\<close>

definition existing :: "db \<Rightarrow> string option \<Rightarrow> idempotency_row list" where
  "existing d idempotencyKey =
     (if truthy idempotencyKey
        then [r \<leftarrow> idempotency_keys d. ik_key r = the idempotencyKey]
      else [])"

text \<open>
  \<^verbatim>\<open>executeTransfer\<close> (lines 59-189). The pair is the database after the call and what
  the caller gets: \<open>Inr\<close> the returned object, \<open>Inl\<close> the error thrown. The \<^verbatim>\<open>catch\<close>
  block sends ROLLBACK and rethrows, so an error comes with the database of BEGIN.
  The call is one transaction run alone: no other transaction writes between its BEGIN
  and its COMMIT. \<open>userId\<close> and the amount are integers, as the column \<^verbatim>\<open>users.id\<close> and
  the check \<^verbatim>\<open>Number.isInteger(amount)\<close> of the routes have them; the service itself puts
  no bound or sign on the amount, and neither does the model.
\<close>

definition executeTransfer ::
  "env \<Rightarrow> db \<Rightarrow> flow \<Rightarrow> int \<Rightarrow> string \<Rightarrow> int \<Rightarrow> string option \<Rightarrow> db \<times> (error + transfer_result)" where
  "executeTransfer e d fl userId assetCode amt idempotencyKey =
     (case existing d idempotencyKey of
        r # _ \<Rightarrow> (d, Inr \<lparr>idempotent = True, statusCode = ik_response_code r,
                          body = ik_response_body r\<rparr>)
      | [] \<Rightarrow>
          (case prepare e d fl userId assetCode amt of
             Inl err \<Rightarrow> (d, Inl err)
           | Inr responseBody \<Rightarrow>
               (case run d (statements e idempotencyKey responseBody) of
                  Inl err \<Rightarrow> (d, Inl err)
                | Inr d' \<Rightarrow> (d', Inr \<lparr>idempotent = False, statusCode = 200,
                                       body = responseBody\<rparr>))))"

text \<open>The public API (lines 197-215).\<close>

definition topUp :: "env \<Rightarrow> db \<Rightarrow> int \<Rightarrow> string \<Rightarrow> int \<Rightarrow> string option \<Rightarrow> db \<times> (error + transfer_result)" where
  "topUp e d userId assetCode amt idempotencyKey = executeTransfer e d Topup userId assetCode amt idempotencyKey"

definition bonus :: "env \<Rightarrow> db \<Rightarrow> int \<Rightarrow> string \<Rightarrow> int \<Rightarrow> string option \<Rightarrow> db \<times> (error + transfer_result)" where
  "bonus e d userId assetCode amt idempotencyKey = executeTransfer e d Bonus userId assetCode amt idempotencyKey"

definition spend :: "env \<Rightarrow> db \<Rightarrow> int \<Rightarrow> string \<Rightarrow> int \<Rightarrow> string option \<Rightarrow> db \<times> (error + transfer_result)" where
  "spend e d userId assetCode amt idempotencyKey = executeTransfer e d Spend userId assetCode amt idempotencyKey"

text \<open>
  The same request sent once per element of the list, each call with its own
  \<^verbatim>\<open>uuidv4()\<close> and \<^verbatim>\<open>NOW()\<close>, one after the other: the database after the last call
  and the outcomes in order.
\<close>

fun repeatRequest ::
  "env list \<Rightarrow> db \<Rightarrow> flow \<Rightarrow> int \<Rightarrow> string \<Rightarrow> int \<Rightarrow> string option \<Rightarrow> db \<times> (error + transfer_result) list" where
  "repeatRequest [] d fl userId assetCode amt idempotencyKey = (d, [])"
| "repeatRequest (e # es) d fl userId assetCode amt idempotencyKey =
     (case executeTransfer e d fl userId assetCode amt idempotencyKey of
        (d1, r) \<Rightarrow>
          (case repeatRequest es d1 fl userId assetCode amt idempotencyKey of
             (d2, rs) \<Rightarrow> (d2, r # rs)))"

text \<open>The balance column of the first wallet row with the given id.\<close>

definition balanceOf :: "db \<Rightarrow> int \<Rightarrow> int option" where
  "balanceOf d i = map_option w_balance (find (\<lambda>w. w_id w = i) (wallets d))"

section \<open>Transaction history\<close>

text \<open>The columns selected by \<^verbatim>\<open>getTransactions\<close> (lines 256-257).\<close>

record transaction_row =
  tx_transaction_id :: string
  tx_entry_type :: entry_type
  tx_amount :: int
  tx_balance_after :: int
  tx_description :: string
  tx_created_at :: nat
  tx_asset_code :: string

definition selectRow :: "ledger_row \<Rightarrow> asset_type_row \<Rightarrow> transaction_row" where
  "selectRow le a =
     \<lparr>tx_transaction_id = le_transaction_id le, tx_entry_type = le_entry_type le,
      tx_amount = le_amount le, tx_balance_after = le_balance_after le,
      tx_description = le_description le, tx_created_at = le_created_at le,
      tx_asset_code = at_code a\<rparr>"

text \<open>
  Lines 255-268: ledger entries joined with their wallet and its asset type, for the
  wallets of \<open>userId\<close>; \<^verbatim>\<open>AND a.code = $2\<close> is added only \<^verbatim>\<open>if (assetCode)\<close>.
\<close>

definition historyRows :: "db \<Rightarrow> int \<Rightarrow> string option \<Rightarrow> transaction_row list" where
  "historyRows d userId assetCode =
     [selectRow le a. le \<leftarrow> ledger_entries d, w \<leftarrow> wallets d, w_id w = le_wallet_id le,
                      a \<leftarrow> asset_types d, at_id a = w_asset_type_id w, w_user_id w = userId,
                      truthy assetCode \<longrightarrow> at_code a = the assetCode]"

text \<open>
  \<^verbatim>\<open>getTransactions\<close> (lines 254-280): \<^verbatim>\<open>ORDER BY le.created_at DESC LIMIT $n OFFSET $m\<close>,
  with the defaults \<^verbatim>\<open>limit = 20\<close> and \<^verbatim>\<open>offset = 0\<close> for an absent option. SQL leaves the
  order of rows with equal \<^verbatim>\<open>created_at\<close> open; the model keeps them in table order.
  The pair is the database after the call and the rows or the error.
\<close>

definition getTransactions ::
  "db \<Rightarrow> int \<Rightarrow> string option \<Rightarrow> int option \<Rightarrow> int option \<Rightarrow> db \<times> (error + transaction_row list)" where
  "getTransactions d userId assetCode limit offset =
     (let lim = (case limit of None \<Rightarrow> 20 | Some n \<Rightarrow> n);
          off = (case offset of None \<Rightarrow> 0 | Some n \<Rightarrow> n);
          ordered = sort_key (\<lambda>r. - int (tx_created_at r)) (historyRows d userId assetCode)
      in if lim < 0 then (d, Inl (DbError NegativeLimit))
         else if off < 0 then (d, Inl (DbError NegativeOffset))
         else (d, Inr (take (nat lim) (drop (nat off) ordered))))"

section \<open>Example data\<close>

text \<open>
  The GOLD_COINS rows that \<^verbatim>\<open>db/seed.sql\<close> leaves in a fresh database: the treasury is
  user 1 with wallet 1, \<^verbatim>\<open>shivansh\<close> is user 2 with wallet 4. The two balances are
  parameters; the ledger and the idempotency store are empty.
\<close>

definition exampleDb :: "int \<Rightarrow> int \<Rightarrow> db" where
  "exampleDb treasuryBalance userBalance =
     \<lparr>asset_types = [\<lparr>at_id = 1, at_code = ''GOLD_COINS''\<rparr>],
      users = [\<lparr>u_id = 1, u_type = System\<rparr>, \<lparr>u_id = 2, u_type = User\<rparr>],
      wallets = [\<lparr>w_id = 1, w_user_id = 1, w_asset_type_id = 1, w_balance = treasuryBalance\<rparr>,
                 \<lparr>w_id = 4, w_user_id = 2, w_asset_type_id = 1, w_balance = userBalance\<rparr>],
      ledger_entries = [],
      idempotency_keys = []\<rparr>"

text \<open>Decimal digits of an integer, for the environment of the examples.\<close>

function decimalNat :: "nat \<Rightarrow> string" where
  "decimalNat n =
     (if n < 10 then [''0123456789'' ! n]
      else decimalNat (n div 10) @ [''0123456789'' ! (n mod 10)])"
  by pat_completeness auto
termination
  by (relation "measure (\<lambda>n. n)") auto

declare decimalNat.simps [simp del]

definition decimal :: "int \<Rightarrow> string" where
  "decimal i = (if i < 0 then CHR ''-'' # decimalNat (nat (- i)) else decimalNat (nat i))"

definition exampleEnv :: "string \<Rightarrow> nat \<Rightarrow> env" where
  "exampleEnv uuid t = \<lparr>uuidv4 = uuid, now = t, toString = decimal\<rparr>"

text \<open>
  The database after the spend of 200 from a wallet holding 1000 under the key \<^verbatim>\<open>k1\<close>.
\<close>

definition afterSpend :: db where
  "afterSpend =
     fst (executeTransfer (exampleEnv ''3f8a'' 7) (exampleDb 1000000000 1000)
            Spend 2 ''GOLD_COINS'' 200 (Some ''k1''))"

text \<open>The database after a later top-up of 50 for the same user under the key \<^verbatim>\<open>k3\<close>.\<close>

definition afterTopUp :: db where
  "afterTopUp =
     fst (executeTransfer (exampleEnv ''5b2e'' 12) afterSpend Topup 2 ''GOLD_COINS'' 50 (Some ''k3''))"

section \<open>Basic facts\<close>

lemmas transfer_defs =
  executeTransfer_def existing_def prepare_def endpoints_def resolveWalletId_def
  resolveTreasuryWalletId_def selectForUpdate_def lockOrder_def responseOf_def statements_def
  debitEntry_def creditEntry_def idempotencyRecord_def setBalance_def inBigint_def
  walletExists_def Number_def roundToDouble_def expo53.simps balanceOf_def

lemmas example_defs =
  exampleDb_def exampleEnv_def decimal_def decimalNat.simps afterSpend_def

lemma find_as_filter: "find P xs = (case filter P xs of [] \<Rightarrow> None | x # _ \<Rightarrow> Some x)"
  by (induction xs) auto

lemma filter_id_among:
  "filter (\<lambda>w. w_id w = i) [w \<leftarrow> ws. w_id w \<in> S] =
     (if i \<in> S then filter (\<lambda>w. w_id w = i) ws else [])"
  by (induction ws) auto

text \<open>The locking read returns, for each of the two ids, the wallet's first row.\<close>

lemma find_selectForUpdate:
  "find (\<lambda>w. w_id w = i) (selectForUpdate d ids) =
     (if i \<in> set ids then find (\<lambda>w. w_id w = i) (wallets d) else None)"
proof -
  have "filter (\<lambda>w. w_id w = i) (selectForUpdate d ids) =
        filter (\<lambda>w. w_id w = i) [w \<leftarrow> wallets d. w_id w \<in> set ids]"
    unfolding selectForUpdate_def by (rule sort_key_stable)
  also have "\<dots> = (if i \<in> set ids then filter (\<lambda>w. w_id w = i) (wallets d) else [])"
    by (rule filter_id_among)
  finally show ?thesis
    by (simp add: find_as_filter)
qed

lemma set_lockOrder: "set (lockOrder src dst) = {src, dst}"
  by (auto simp: lockOrder_def)

lemma sorted_lockOrder: "sorted (lockOrder src dst)"
  by (simp add: lockOrder_def)

lemma prepare_balances:
  "prepare e d fl userId assetCode amt =
     (case endpoints d fl userId assetCode of
        Inl err \<Rightarrow> Inl err
      | Inr (src, dst) \<Rightarrow>
          (case (balanceOf d src, balanceOf d dst) of
             (Some sourceBalance, Some destBalance) \<Rightarrow>
               if sourceBalance < amt then Inl (InsufficientBalance sourceBalance amt)
               else Inr (responseOf e fl userId assetCode amt src dst sourceBalance destBalance)
           | _ \<Rightarrow> Inl WalletsNotFound))"
  by (auto simp: prepare_def balanceOf_def find_selectForUpdate set_lockOrder
           split: sum.splits prod.splits option.splits)

subsection \<open>Rounding\<close>

lemma expo53_small: "a < 2 ^ 53 \<Longrightarrow> expo53 a = 0"
  by (simp add: expo53.simps)

lemma roundToDouble_exact: "0 \<le> a \<Longrightarrow> a \<le> 2 ^ 53 \<Longrightarrow> roundToDouble a = a"
proof (cases "a < 2 ^ 53")
  case True
  then show ?thesis by (simp add: roundToDouble_def expo53_small)
next
  case False
  assume "a \<le> 2 ^ 53"
  with False have a: "a = 2 ^ 53" by simp
  have "expo53 (2 ^ 53) = 1"
    by (simp add: expo53.simps)
  then show ?thesis by (simp add: roundToDouble_def a)
qed

lemma Number_exact: "\<bar>b\<bar> \<le> 2 ^ 53 \<Longrightarrow> Number b = b"
  by (auto simp: Number_def roundToDouble_exact)

lemma roundToDouble_nonneg: "0 \<le> a \<Longrightarrow> 0 \<le> roundToDouble a"
  by (simp add: roundToDouble_def Let_def pos_imp_zdiv_nonneg_iff)

lemma Number_nonneg: "0 \<le> b \<Longrightarrow> 0 \<le> Number b"
  by (simp add: Number_def roundToDouble_nonneg)

subsection \<open>Statements\<close>

lemma find_setBalance:
  "find (\<lambda>w. w_id w = j) (setBalance v i ws) =
     (if i = j then map_option (\<lambda>w. w\<lparr>w_balance := v\<rparr>) (find (\<lambda>w. w_id w = j) ws)
      else find (\<lambda>w. w_id w = j) ws)"
  by (induction ws) (auto simp: setBalance_def)

lemma walletExists_setBalance [simp]:
  "walletExists (d\<lparr>wallets := setBalance v i (wallets d)\<rparr>) j = walletExists d j"
  by (auto simp: walletExists_def find_setBalance)

lemma walletExists_ledger [simp]:
  "walletExists (d\<lparr>ledger_entries := l\<rparr>) j = walletExists d j"
  by (simp add: walletExists_def)

lemma balanceOf_setBalance:
  "balanceOf (d\<lparr>wallets := setBalance v i (wallets d)\<rparr>) j =
     (if i = j then map_option (\<lambda>_. v) (balanceOf d j) else balanceOf d j)"
  by (simp add: balanceOf_def find_setBalance option.map_comp comp_def)

lemma run_Cons_Inr:
  "run d (s # ss) = Inr d' \<longleftrightarrow> (\<exists>d1. exec d s = Inr d1 \<and> run d1 ss = Inr d')"
  by (simp split: sum.splits)

lemma exec_UpdateBalance_Inr:
  "exec d (UpdateBalance v i) = Inr d1 \<longleftrightarrow>
     inBigint v \<and> (walletExists d i \<longrightarrow> 0 \<le> v) \<and> d1 = d\<lparr>wallets := setBalance v i (wallets d)\<rparr>"
  by auto

lemma exec_InsertLedger_Inr:
  "exec d (InsertLedger row) = Inr d1 \<longleftrightarrow>
     inBigint (le_amount row) \<and> inBigint (le_balance_after row) \<and>
     length (le_description row) \<le> 256 \<and> 0 < le_amount row \<and>
     walletExists d (le_wallet_id row) \<and>
     d1 = d\<lparr>ledger_entries := ledger_entries d @ [row]\<rparr>"
  by auto

lemma exec_InsertIdempotency_Inr:
  "exec d (InsertIdempotency row) = Inr d1 \<longleftrightarrow>
     length (ik_key row) \<le> 128 \<and>
     find (\<lambda>r. ik_key r = ik_key row) (idempotency_keys d) = None \<and>
     d1 = d\<lparr>idempotency_keys := idempotency_keys d @ [row]\<rparr>"
  by auto

subsection \<open>Replay\<close>

lemma existing_stored:
  assumes "truthy k" and "find (\<lambda>r. ik_key r = the k) (idempotency_keys d) = Some r"
  shows "\<exists>rs. existing d k = r # rs"
  using assms by (auto simp: existing_def find_as_filter split: list.splits)

lemma replay_stored:
  assumes "truthy k" and "find (\<lambda>r. ik_key r = the k) (idempotency_keys d) = Some r"
  shows "executeTransfer e d fl userId assetCode amt k =
           (d, Inr \<lparr>idempotent = True, statusCode = ik_response_code r, body = ik_response_body r\<rparr>)"
proof -
  from existing_stored [OF assms] obtain rs where "existing d k = r # rs" ..
  then show ?thesis by (simp add: executeTransfer_def)
qed

lemma afterSpend_eq:
  "afterSpend =
     \<lparr>asset_types = [\<lparr>at_id = 1, at_code = ''GOLD_COINS''\<rparr>],
      users = [\<lparr>u_id = 1, u_type = System\<rparr>, \<lparr>u_id = 2, u_type = User\<rparr>],
      wallets = [\<lparr>w_id = 1, w_user_id = 1, w_asset_type_id = 1, w_balance = 1000000200\<rparr>,
                 \<lparr>w_id = 4, w_user_id = 2, w_asset_type_id = 1, w_balance = 800\<rparr>],
      ledger_entries =
        [\<lparr>le_transaction_id = ''3f8a'', le_wallet_id = 4, le_entry_type = DEBIT,
          le_amount = 200, le_balance_after = 800,
          le_description = ''Spend: 200 GOLD_COINS spent by user 2'', le_created_at = 7\<rparr>,
         \<lparr>le_transaction_id = ''3f8a'', le_wallet_id = 1, le_entry_type = CREDIT,
          le_amount = 200, le_balance_after = 1000000200,
          le_description = ''Spend: 200 GOLD_COINS spent by user 2'', le_created_at = 7\<rparr>],
      idempotency_keys =
        [\<lparr>ik_key = ''k1'', ik_response_code = 200,
          ik_response_body =
            \<lparr>transactionId = ''3f8a'', sourceWalletId = 4, destWalletId = 1, amount = 200,
             newSourceBalance = 800, newDestBalance = 1000000200,
             description = ''Spend: 200 GOLD_COINS spent by user 2''\<rparr>\<rparr>]\<rparr>"
  by (simp add: transfer_defs example_defs)

section \<open>Idempotent replay\<close>

text \<open>
  C2. For an idempotency key already in the store (the key being a non-empty string,
  as \<^verbatim>\<open>if (idempotencyKey)\<close> asks), a call with that key, whatever its other arguments,
  returns the stored status and body with \<open>idempotent = True\<close> and leaves the database as
  it was: no balance, ledger entry or idempotency row is written. Sent any number of
  times in a row, the request gets the same stored body each time.
\<close>

theorem replay_returns_stored_result:
  assumes "truthy k" and "find (\<lambda>r. ik_key r = the k) (idempotency_keys d) = Some r"
  shows "executeTransfer e d fl userId assetCode amt k =
           (d, Inr \<lparr>idempotent = True, statusCode = ik_response_code r, body = ik_response_body r\<rparr>)
       \<and> repeatRequest es d fl userId assetCode amt k =
           (d, replicate (length es)
                 (Inr \<lparr>idempotent = True, statusCode = ik_response_code r, body = ik_response_body r\<rparr>))"
proof
  show "executeTransfer e d fl userId assetCode amt k =
           (d, Inr \<lparr>idempotent = True, statusCode = ik_response_code r, body = ik_response_body r\<rparr>)"
    by (rule replay_stored [OF assms])
  show "repeatRequest es d fl userId assetCode amt k =
           (d, replicate (length es)
                 (Inr \<lparr>idempotent = True, statusCode = ik_response_code r, body = ik_response_body r\<rparr>))"
    by (induction es) (simp_all add: replay_stored [OF assms])
qed

theorem replay_returns_stored_result_witness:
  "truthy (Some ''k1'')
   \<and> find (\<lambda>r. ik_key r = the (Some ''k1'')) (idempotency_keys afterSpend) =
       Some (idempotencyRecord ''k1'' (responseOf (exampleEnv ''3f8a'' 7) Spend 2 ''GOLD_COINS'' 200 4 1 1000 1000000000))
   \<and> executeTransfer (exampleEnv ''77e0'' 9) afterSpend Spend 2 ''GOLD_COINS'' 200 (Some ''k1'') =
       (afterSpend,
        Inr \<lparr>idempotent = True, statusCode = 200,
             body = responseOf (exampleEnv ''3f8a'' 7) Spend 2 ''GOLD_COINS'' 200 4 1 1000 1000000000\<rparr>)
   \<and> repeatRequest [exampleEnv ''77e0'' 9, exampleEnv ''77e1'' 10, exampleEnv ''77e2'' 11]
        afterSpend Spend 2 ''GOLD_COINS'' 200 (Some ''k1'') =
       (afterSpend,
        replicate 3
          (Inr \<lparr>idempotent = True, statusCode = 200,
                body = responseOf (exampleEnv ''3f8a'' 7) Spend 2 ''GOLD_COINS'' 200 4 1 1000 1000000000\<rparr>))
   \<and> balanceOf afterSpend 4 = Some 800"
proof -
  let ?b = "responseOf (exampleEnv ''3f8a'' 7) Spend 2 ''GOLD_COINS'' 200 4 1 1000 1000000000"
  have k: "truthy (Some ''k1'')"
    by simp
  have stored: "find (\<lambda>r. ik_key r = the (Some ''k1'')) (idempotency_keys afterSpend) =
                  Some (idempotencyRecord ''k1'' ?b)"
    by (simp add: afterSpend_eq responseOf_def idempotencyRecord_def Number_def roundToDouble_def
          expo53.simps exampleEnv_def decimal_def decimalNat.simps)
  have bal: "balanceOf afterSpend 4 = Some 800"
    by (simp add: afterSpend_eq balanceOf_def)
  from replay_returns_stored_result
         [OF k stored, of "exampleEnv ''77e0'' 9" Spend 2 "''GOLD_COINS''" 200
            "[exampleEnv ''77e0'' 9, exampleEnv ''77e1'' 10, exampleEnv ''77e2'' 11]"]
  have "executeTransfer (exampleEnv ''77e0'' 9) afterSpend Spend 2 ''GOLD_COINS'' 200 (Some ''k1'') =
          (afterSpend, Inr \<lparr>idempotent = True, statusCode = 200, body = ?b\<rparr>)
      \<and> repeatRequest [exampleEnv ''77e0'' 9, exampleEnv ''77e1'' 10, exampleEnv ''77e2'' 11]
          afterSpend Spend 2 ''GOLD_COINS'' 200 (Some ''k1'') =
          (afterSpend, replicate 3 (Inr \<lparr>idempotent = True, statusCode = 200, body = ?b\<rparr>))"
    by (simp add: idempotencyRecord_def eval_nat_numeral del: repeatRequest.simps)
  with k stored bal show ?thesis
    by blast
qed

section \<open>Failure and rollback\<close>

text \<open>
  C3. When a call throws, the database is the one of BEGIN, the call was not a replay,
  and the error thrown is the one that arose: the error of resolution, locking read or
  balance check, or else the error of the first statement the database rejected.
  In particular a call that is not a replay, whose wallets resolve and exist, and whose
  source balance is strictly less than the amount throws \<open>InsufficientBalance\<close> with the
  database (balances, ledger, idempotency store) unchanged.
\<close>

theorem failure_leaves_no_trace:
  "(snd (executeTransfer e d fl userId assetCode amt k) = Inl err \<longrightarrow>
      fst (executeTransfer e d fl userId assetCode amt k) = d \<and>
      existing d k = [] \<and>
      (prepare e d fl userId assetCode amt = Inl err \<or>
       (\<exists>b. prepare e d fl userId assetCode amt = Inr b \<and> run d (statements e k b) = Inl err)))
   \<and> (existing d k = [] \<and> endpoints d fl userId assetCode = Inr (src, dst) \<and>
      balanceOf d src = Some sourceBalance \<and> balanceOf d dst = Some destBalance \<and>
      sourceBalance < amt \<longrightarrow>
        executeTransfer e d fl userId assetCode amt k =
          (d, Inl (InsufficientBalance sourceBalance amt)))"
proof (rule conjI; rule impI)
  assume "snd (executeTransfer e d fl userId assetCode amt k) = Inl err"
  then show "fst (executeTransfer e d fl userId assetCode amt k) = d \<and>
      existing d k = [] \<and>
      (prepare e d fl userId assetCode amt = Inl err \<or>
       (\<exists>b. prepare e d fl userId assetCode amt = Inr b \<and> run d (statements e k b) = Inl err))"
    by (auto simp: executeTransfer_def split: list.splits sum.splits)
next
  assume "existing d k = [] \<and> endpoints d fl userId assetCode = Inr (src, dst) \<and>
      balanceOf d src = Some sourceBalance \<and> balanceOf d dst = Some destBalance \<and>
      sourceBalance < amt"
  then show "executeTransfer e d fl userId assetCode amt k =
          (d, Inl (InsufficientBalance sourceBalance amt))"
    by (simp add: executeTransfer_def prepare_balances)
qed

theorem failure_leaves_no_trace_witness:
  "existing afterSpend (Some ''k2'') = []
   \<and> endpoints afterSpend Spend 2 ''GOLD_COINS'' = Inr (4, 1)
   \<and> balanceOf afterSpend 4 = Some 800 \<and> balanceOf afterSpend 1 = Some 1000000200
   \<and> (800 :: int) < 900
   \<and> executeTransfer (exampleEnv ''9c1d'' 8) afterSpend Spend 2 ''GOLD_COINS'' 900 (Some ''k2'') =
       (afterSpend, Inl (InsufficientBalance 800 900))
   \<and> snd (executeTransfer (exampleEnv ''9c1d'' 8) afterSpend Spend 2 ''GOLD_COINS'' 900 (Some ''k2'')) =
       Inl (InsufficientBalance 800 900)
   \<and> fst (executeTransfer (exampleEnv ''9c1d'' 8) afterSpend Spend 2 ''GOLD_COINS'' 900 (Some ''k2'')) =
       afterSpend
   \<and> prepare (exampleEnv ''9c1d'' 8) afterSpend Spend 2 ''GOLD_COINS'' 900 = Inl (InsufficientBalance 800 900)"
proof -
  let ?e = "exampleEnv ''9c1d'' 8"
  have h: "existing afterSpend (Some ''k2'') = []
      \<and> endpoints afterSpend Spend 2 ''GOLD_COINS'' = Inr (4, 1)
      \<and> balanceOf afterSpend 4 = Some 800 \<and> balanceOf afterSpend 1 = Some 1000000200
      \<and> (800 :: int) < 900"
    by (simp add: afterSpend_eq existing_def endpoints_def resolveWalletId_def
          resolveTreasuryWalletId_def balanceOf_def)
  have p: "prepare ?e afterSpend Spend 2 ''GOLD_COINS'' 900 = Inl (InsufficientBalance 800 900)"
    using h by (simp add: prepare_balances)
  note t = failure_leaves_no_trace
             [where e = ?e and d = afterSpend and fl = Spend and userId = 2
                and assetCode = "''GOLD_COINS''" and amt = 900 and k = "Some ''k2''"
                and err = "InsufficientBalance 800 900" and src = 4 and dst = 1
                and sourceBalance = 800 and destBalance = 1000000200]
  from t h have r: "executeTransfer ?e afterSpend Spend 2 ''GOLD_COINS'' 900 (Some ''k2'') =
                      (afterSpend, Inl (InsufficientBalance 800 900))"
    by blast
  then have s: "snd (executeTransfer ?e afterSpend Spend 2 ''GOLD_COINS'' 900 (Some ''k2'')) =
                  Inl (InsufficientBalance 800 900)"
    by simp
  with t have "fst (executeTransfer ?e afterSpend Spend 2 ''GOLD_COINS'' 900 (Some ''k2'')) = afterSpend"
    by blast
  with h p r s show ?thesis
    by blast
qed

subsection \<open>Committed transfers\<close>

lemma run_statements_Inr:
  assumes "run d (statements e k b) = Inr d'"
  shows "d' = d\<lparr>wallets := setBalance (newDestBalance b) (destWalletId b)
                             (setBalance (newSourceBalance b) (sourceWalletId b) (wallets d)),
                 ledger_entries := ledger_entries d @ [debitEntry e b, creditEntry e b],
                 idempotency_keys := idempotency_keys d @
                    (if truthy k then [idempotencyRecord (the k) b] else [])\<rparr>"
    and "0 < amount b" and "inBigint (newSourceBalance b)" and "inBigint (newDestBalance b)"
    and "walletExists d (sourceWalletId b)" and "walletExists d (destWalletId b)"
    and "0 \<le> newSourceBalance b" and "0 \<le> newDestBalance b"
    and "truthy k \<longrightarrow> find (\<lambda>r. ik_key r = the k) (idempotency_keys d) = None"
  using assms
  by (auto simp: statements_def run_Cons_Inr exec_UpdateBalance_Inr exec_InsertLedger_Inr
        exec_InsertIdempotency_Inr debitEntry_def creditEntry_def idempotencyRecord_def
      simp del: exec.simps run.simps(2))

lemma committed_transfer:
  assumes "executeTransfer e d fl userId assetCode amt k = (d', Inr res)" and "\<not> idempotent res"
  shows "\<exists>src dst sourceBalance destBalance.
           endpoints d fl userId assetCode = Inr (src, dst) \<and>
           balanceOf d src = Some sourceBalance \<and> balanceOf d dst = Some destBalance \<and>
           amt \<le> sourceBalance \<and> existing d k = [] \<and>
           res = \<lparr>idempotent = False, statusCode = 200,
                  body = responseOf e fl userId assetCode amt src dst sourceBalance destBalance\<rparr> \<and>
           run d (statements e k (body res)) = Inr d'"
  using assms
  by (auto simp: executeTransfer_def prepare_balances
           split: list.splits sum.splits prod.splits option.splits if_splits)


lemma balance_after_setBalance:
  "map_option w_balance (find (\<lambda>w. w_id w = j) (setBalance v i ws)) =
     (if i = j then map_option (\<lambda>_. v) (find (\<lambda>w. w_id w = j) ws)
      else map_option w_balance (find (\<lambda>w. w_id w = j) ws))"
  by (simp add: find_setBalance option.map_comp comp_def)

lemma balanceOf_committed:
  assumes "run d (statements e k b) = Inr d'"
  shows "balanceOf d' (destWalletId b) = Some (newDestBalance b)"
    and "sourceWalletId b \<noteq> destWalletId b \<Longrightarrow> balanceOf d' (sourceWalletId b) = Some (newSourceBalance b)"
    and "j \<noteq> sourceWalletId b \<Longrightarrow> j \<noteq> destWalletId b \<Longrightarrow> balanceOf d' j = balanceOf d j"
proof -
  note r = run_statements_Inr [OF assms]
  from r(5) obtain ws where ws: "find (\<lambda>w. w_id w = sourceWalletId b) (wallets d) = Some ws"
    by (auto simp: walletExists_def)
  from r(6) obtain wd where wd: "find (\<lambda>w. w_id w = destWalletId b) (wallets d) = Some wd"
    by (auto simp: walletExists_def)
  show "balanceOf d' (destWalletId b) = Some (newDestBalance b)"
    by (simp add: r(1) balanceOf_def balance_after_setBalance find_setBalance wd)
  show "balanceOf d' (sourceWalletId b) = Some (newSourceBalance b)"
    if "sourceWalletId b \<noteq> destWalletId b"
    using that by (simp add: r(1) balanceOf_def balance_after_setBalance ws)
  show "balanceOf d' j = balanceOf d j" if "j \<noteq> sourceWalletId b" "j \<noteq> destWalletId b"
    using that by (auto simp add: r(1) balanceOf_def balance_after_setBalance)
qed


section \<open>The result of a first-time transfer\<close>





section \<open>Double entry\<close>




section \<open>Transaction history, newest first\<close>

lemma set_historyRows:
  "set (historyRows d userId assetCode) =
     {selectRow le a | le w a.
        le \<in> set (ledger_entries d) \<and> w \<in> set (wallets d) \<and> a \<in> set (asset_types d) \<and>
        w_id w = le_wallet_id le \<and> at_id a = w_asset_type_id w \<and> w_user_id w = userId \<and>
        (truthy assetCode \<longrightarrow> at_code a = the assetCode)}"
  unfolding historyRows_def by (auto split: if_splits) blast+

lemma newest_first_sort_key:
  "sorted_wrt (\<lambda>r s. tx_created_at s \<le> tx_created_at r)
     (sort_key (\<lambda>r. - int (tx_created_at r)) xs)"
proof -
  have "sorted (map (\<lambda>r. - int (tx_created_at r)) (sort_key (\<lambda>r. - int (tx_created_at r)) xs))"
    by (rule sorted_sort_key)
  then show ?thesis
    by (simp add: sorted_map)
qed

text \<open>
  C8. \<^verbatim>\<open>getTransactions\<close> never changes the database. When it returns rows, they are
  a page of the owner's ledger entries ordered newest first: some ordering of all the
  selected rows by descending \<^verbatim>\<open>created_at\<close>, with the first \<open>offset\<close> rows dropped and at
  most \<open>limit\<close> rows kept (defaults 20 and 0). The selected rows are exactly the ledger entries of
  wallets of \<open>userId\<close>, each with the code of its wallet's asset type, and, when an
  asset code is given (a non-empty string), only those of that asset. With limit and
  offset not negative the call returns rows.
\<close>

theorem history_newest_first:
  "fst (getTransactions d userId assetCode limit offset) = d
   \<and> (getTransactions d userId assetCode limit offset = (d', Inr rows) \<longrightarrow>
        (\<exists>ordered.
           mset ordered = mset (historyRows d userId assetCode)
         \<and> sorted_wrt (\<lambda>r s. tx_created_at s \<le> tx_created_at r) ordered
         \<and> rows = take (nat (case limit of None \<Rightarrow> 20 | Some n \<Rightarrow> n))
                    (drop (nat (case offset of None \<Rightarrow> 0 | Some n \<Rightarrow> n)) ordered))
      \<and> sorted_wrt (\<lambda>r s. tx_created_at s \<le> tx_created_at r) rows
      \<and> (\<forall>r \<in> set rows. \<exists>le w a.
            le \<in> set (ledger_entries d) \<and> w \<in> set (wallets d) \<and> a \<in> set (asset_types d) \<and>
            w_id w = le_wallet_id le \<and> at_id a = w_asset_type_id w \<and> w_user_id w = userId \<and>
            r = selectRow le a \<and>
            (truthy assetCode \<longrightarrow> tx_asset_code r = the assetCode)))
   \<and> set (historyRows d userId assetCode) =
       {selectRow le a | le w a.
          le \<in> set (ledger_entries d) \<and> w \<in> set (wallets d) \<and> a \<in> set (asset_types d) \<and>
          w_id w = le_wallet_id le \<and> at_id a = w_asset_type_id w \<and> w_user_id w = userId \<and>
          (truthy assetCode \<longrightarrow> at_code a = the assetCode)}
   \<and> (0 \<le> (case limit of None \<Rightarrow> 20 | Some n \<Rightarrow> n) \<and> 0 \<le> (case offset of None \<Rightarrow> 0 | Some n \<Rightarrow> n) \<longrightarrow>
        (\<exists>rs. getTransactions d userId assetCode limit offset = (d, Inr rs)))"
proof (intro conjI impI)
  let ?lim = "case limit of None \<Rightarrow> 20 | Some n \<Rightarrow> n"
  let ?off = "case offset of None \<Rightarrow> 0 | Some n \<Rightarrow> n"
  let ?ordered = "sort_key (\<lambda>r. - int (tx_created_at r)) (historyRows d userId assetCode)"
  show "fst (getTransactions d userId assetCode limit offset) = d"
    by (simp add: getTransactions_def Let_def)
  show "set (historyRows d userId assetCode) =
       {selectRow le a | le w a.
          le \<in> set (ledger_entries d) \<and> w \<in> set (wallets d) \<and> a \<in> set (asset_types d) \<and>
          w_id w = le_wallet_id le \<and> at_id a = w_asset_type_id w \<and> w_user_id w = userId \<and>
          (truthy assetCode \<longrightarrow> at_code a = the assetCode)}"
    by (rule set_historyRows)
  show "\<exists>rs. getTransactions d userId assetCode limit offset = (d, Inr rs)"
    if "0 \<le> ?lim \<and> 0 \<le> ?off"
    using that by (simp add: getTransactions_def Let_def)
  assume g: "getTransactions d userId assetCode limit offset = (d', Inr rows)"
  then have rows: "rows = take (nat ?lim) (drop (nat ?off) ?ordered)"
    by (auto simp: getTransactions_def Let_def split: if_splits)
  have perm: "mset ?ordered = mset (historyRows d userId assetCode)"
    by simp
  have ord: "sorted_wrt (\<lambda>r s. tx_created_at s \<le> tx_created_at r) ?ordered"
    by (rule newest_first_sort_key)
  from perm ord rows
  show "\<exists>ordered.
           mset ordered = mset (historyRows d userId assetCode)
         \<and> sorted_wrt (\<lambda>r s. tx_created_at s \<le> tx_created_at r) ordered
         \<and> rows = take (nat ?lim) (drop (nat ?off) ordered)"
    by blast
  show "sorted_wrt (\<lambda>r s. tx_created_at s \<le> tx_created_at r) rows"
    unfolding rows by (intro sorted_wrt_take sorted_wrt_drop ord)
  show "\<forall>r \<in> set rows. \<exists>le w a.
            le \<in> set (ledger_entries d) \<and> w \<in> set (wallets d) \<and> a \<in> set (asset_types d) \<and>
            w_id w = le_wallet_id le \<and> at_id a = w_asset_type_id w \<and> w_user_id w = userId \<and>
            r = selectRow le a \<and>
            (truthy assetCode \<longrightarrow> tx_asset_code r = the assetCode)"
  proof
    fix r assume "r \<in> set rows"
    then have "r \<in> set ?ordered"
      unfolding rows by (meson in_set_takeD in_set_dropD)
    then have "r \<in> set (historyRows d userId assetCode)"
      by simp
    then obtain le w a where
      h: "le \<in> set (ledger_entries d)" "w \<in> set (wallets d)" "a \<in> set (asset_types d)"
         "w_id w = le_wallet_id le" "at_id a = w_asset_type_id w" "w_user_id w = userId"
         "r = selectRow le a" "truthy assetCode \<longrightarrow> at_code a = the assetCode"
      unfolding set_historyRows by blast
    have "tx_asset_code r = at_code a"
      by (simp add: h(7) selectRow_def)
    with h show "\<exists>le w a.
            le \<in> set (ledger_entries d) \<and> w \<in> set (wallets d) \<and> a \<in> set (asset_types d) \<and>
            w_id w = le_wallet_id le \<and> at_id a = w_asset_type_id w \<and> w_user_id w = userId \<and>
            r = selectRow le a \<and>
            (truthy assetCode \<longrightarrow> tx_asset_code r = the assetCode)"
      by metis
  qed
qed


lemma history_example:
  "getTransactions afterTopUp 2 (Some ''GOLD_COINS'') None None =
     (afterTopUp,
      Inr [\<lparr>tx_transaction_id = ''5b2e'', tx_entry_type = CREDIT, tx_amount = 50,
            tx_balance_after = 850,
            tx_description = ''Top-up: 50 GOLD_COINS purchased by user 2'',
            tx_created_at = 12, tx_asset_code = ''GOLD_COINS''\<rparr>,
           \<lparr>tx_transaction_id = ''3f8a'', tx_entry_type = DEBIT, tx_amount = 200,
            tx_balance_after = 800,
            tx_description = ''Spend: 200 GOLD_COINS spent by user 2'',
            tx_created_at = 7, tx_asset_code = ''GOLD_COINS''\<rparr>])"
  unfolding afterTopUp_def afterSpend_eq
  by (simp add: transfer_defs example_defs getTransactions_def historyRows_def selectRow_def)

theorem history_newest_first_witness:
  "getTransactions afterTopUp 2 (Some ''GOLD_COINS'') None None =
     (afterTopUp,
      Inr [\<lparr>tx_transaction_id = ''5b2e'', tx_entry_type = CREDIT, tx_amount = 50,
            tx_balance_after = 850,
            tx_description = ''Top-up: 50 GOLD_COINS purchased by user 2'',
            tx_created_at = 12, tx_asset_code = ''GOLD_COINS''\<rparr>,
           \<lparr>tx_transaction_id = ''3f8a'', tx_entry_type = DEBIT, tx_amount = 200,
            tx_balance_after = 800,
            tx_description = ''Spend: 200 GOLD_COINS spent by user 2'',
            tx_created_at = 7, tx_asset_code = ''GOLD_COINS''\<rparr>])
   \<and> truthy (Some ''GOLD_COINS'')
   \<and> (0 :: int) \<le> (case None of None \<Rightarrow> 20 | Some n \<Rightarrow> n)
   \<and> (0 :: int) \<le> (case None of None \<Rightarrow> 0 | Some n \<Rightarrow> n)
   \<and> fst (getTransactions afterTopUp 2 (Some ''GOLD_COINS'') None None) = afterTopUp
   \<and> sorted_wrt (\<lambda>r s. tx_created_at s \<le> tx_created_at r)
        [\<lparr>tx_transaction_id = ''5b2e'', tx_entry_type = CREDIT, tx_amount = 50,
          tx_balance_after = 850,
          tx_description = ''Top-up: 50 GOLD_COINS purchased by user 2'',
          tx_created_at = 12, tx_asset_code = ''GOLD_COINS''\<rparr>,
         \<lparr>tx_transaction_id = ''3f8a'', tx_entry_type = DEBIT, tx_amount = 200,
          tx_balance_after = 800,
          tx_description = ''Spend: 200 GOLD_COINS spent by user 2'',
          tx_created_at = 7, tx_asset_code = ''GOLD_COINS''\<rparr>]
   \<and> map tx_asset_code
        [\<lparr>tx_transaction_id = ''5b2e'', tx_entry_type = CREDIT, tx_amount = 50,
          tx_balance_after = 850,
          tx_description = ''Top-up: 50 GOLD_COINS purchased by user 2'',
          tx_created_at = 12, tx_asset_code = ''GOLD_COINS''\<rparr>,
         \<lparr>tx_transaction_id = ''3f8a'', tx_entry_type = DEBIT, tx_amount = 200,
          tx_balance_after = 800,
          tx_description = ''Spend: 200 GOLD_COINS spent by user 2'',
          tx_created_at = 7, tx_asset_code = ''GOLD_COINS''\<rparr>] =
       [the (Some ''GOLD_COINS''), the (Some ''GOLD_COINS'')]
   \<and> (\<exists>rs. getTransactions afterTopUp 2 (Some ''GOLD_COINS'') None None = (afterTopUp, Inr rs))"
proof -
  let ?rows = "[\<lparr>tx_transaction_id = ''5b2e'', tx_entry_type = CREDIT, tx_amount = 50,
          tx_balance_after = 850,
          tx_description = ''Top-up: 50 GOLD_COINS purchased by user 2'',
          tx_created_at = 12, tx_asset_code = ''GOLD_COINS''\<rparr>,
         \<lparr>tx_transaction_id = ''3f8a'', tx_entry_type = DEBIT, tx_amount = 200,
          tx_balance_after = 800,
          tx_description = ''Spend: 200 GOLD_COINS spent by user 2'',
          tx_created_at = 7, tx_asset_code = ''GOLD_COINS''\<rparr>]"
  have h: "truthy (Some ''GOLD_COINS'')"
    "(0 :: int) \<le> (case None of None \<Rightarrow> 20 | Some n \<Rightarrow> n)
      \<and> (0 :: int) \<le> (case None of None \<Rightarrow> 0 | Some n \<Rightarrow> n)"
    by simp_all
  note t = history_newest_first
             [where d = afterTopUp and userId = 2 and assetCode = "Some ''GOLD_COINS''"
                and limit = None and offset = None and d' = afterTopUp and rows = ?rows]
  have 1: "fst (getTransactions afterTopUp 2 (Some ''GOLD_COINS'') None None) = afterTopUp"
    by (rule t [THEN conjunct1])
  note t2 = t [THEN conjunct2, THEN conjunct1, THEN mp, OF history_example]
  have 2: "sorted_wrt (\<lambda>r s. tx_created_at s \<le> tx_created_at r) ?rows"
    by (rule t2 [THEN conjunct2, THEN conjunct1])
  have "\<forall>r \<in> set ?rows. tx_asset_code r = the (Some ''GOLD_COINS'')"
  proof
    fix r assume "r \<in> set ?rows"
    with t2 [THEN conjunct2, THEN conjunct2] obtain le w a where
      "truthy (Some ''GOLD_COINS'') \<longrightarrow> tx_asset_code r = the (Some ''GOLD_COINS'')"
      by meson
    with h(1) show "tx_asset_code r = the (Some ''GOLD_COINS'')"
      by (rule rev_mp)
  qed
  then have 3: "map tx_asset_code ?rows = [the (Some ''GOLD_COINS''), the (Some ''GOLD_COINS'')]"
    by simp
  have 4: "\<exists>rs. getTransactions afterTopUp 2 (Some ''GOLD_COINS'') None None = (afterTopUp, Inr rs)"
    by (rule t [THEN conjunct2, THEN conjunct2, THEN conjunct2, THEN mp, OF h(2)])
  show ?thesis
    by (intro conjI history_example h(1) h(2) [THEN conjunct1] h(2) [THEN conjunct2] 1 2 3 4)
qed

section \<open>Balances and rounding\<close>

lemma source_balance_nonneg:
  assumes "executeTransfer e d fl userId assetCode amt k = (d', Inr res)" and "\<not> idempotent res"
    and "sourceWalletId (body res) \<noteq> destWalletId (body res)"
  shows "\<exists>v. balanceOf d' (sourceWalletId (body res)) = Some v \<and> 0 \<le> v"
proof -
  from committed_transfer [OF assms(1,2)] have run: "run d (statements e k (body res)) = Inr d'"
    by blast
  from balanceOf_committed(2) [OF run assms(3)] run_statements_Inr(7) [OF run]
  show ?thesis by blast
qed

lemma conservation_below_2_53:
  assumes "executeTransfer e d fl userId assetCode amt k = (d', Inr res)" and "\<not> idempotent res"
    and "endpoints d fl userId assetCode = Inr (src, dst)" and "src \<noteq> dst"
    and "balanceOf d src = Some sourceBalance" and "balanceOf d dst = Some destBalance"
    and "sourceBalance \<le> 2 ^ 53" and "0 \<le> destBalance" and "destBalance + amt \<le> 2 ^ 53"
  shows "balanceOf d' src = Some (sourceBalance - amt)"
    and "balanceOf d' dst = Some (destBalance + amt)"
    and "0 \<le> sourceBalance - amt"
proof -
  from committed_transfer [OF assms(1,2)] assms(3,5,6) have
    le: "amt \<le> sourceBalance" and
    res: "res = \<lparr>idempotent = False, statusCode = 200,
                 body = responseOf e fl userId assetCode amt src dst sourceBalance destBalance\<rparr>" and
    run: "run d (statements e k (body res)) = Inr d'"
    by auto
  have ids: "sourceWalletId (body res) = src" "destWalletId (body res) = dst"
    "amount (body res) = amt"
    "newSourceBalance (body res) = Number (sourceBalance - amt)"
    "newDestBalance (body res) = Number (destBalance + amt)"
    by (simp_all add: res responseOf_def)
  from run_statements_Inr(2) [OF run] have pos: "0 < amt"
    by (simp add: ids)
  from le assms(7) pos have "Number (sourceBalance - amt) = sourceBalance - amt"
    by (intro Number_exact) simp
  moreover from assms(8,9) pos have "Number (destBalance + amt) = destBalance + amt"
    by (intro Number_exact) simp
  ultimately show "balanceOf d' src = Some (sourceBalance - amt)"
    "balanceOf d' dst = Some (destBalance + amt)"
    using balanceOf_committed(1,2) [OF run] assms(4) by (simp_all add: ids)
  from le show "0 \<le> sourceBalance - amt" by simp
qed

text \<open>
  C1. The claim: after every committed transfer of a positive amount between two
  distinct wallets the sum of the two balances is what it was, and the source balance
  is not negative. The second half holds (\<open>source_balance_nonneg\<close>), and the sum is kept
  while the balances stay within \<open>2 ^ 53\<close> (\<open>conservation_below_2_53\<close>). Above,
  \<^verbatim>\<open>Number(...)\<close> of lines 132-133 rounds: a spend of 1 from a wallet holding 10 to a
  treasury holding \<open>2 ^ 53 = 9007199254740992\<close> commits, takes 1 from the source and
  leaves the destination at \<open>2 ^ 53\<close>, so the sum falls by 1.
\<close>

theorem conservation_fails_above_2_53:
  "\<exists>d' res.
     executeTransfer (exampleEnv ''3f8a'' 7) (exampleDb 9007199254740992 10)
       Spend 2 ''GOLD_COINS'' 1 (Some ''k1'') = (d', Inr res)
   \<and> \<not> idempotent res
   \<and> sourceWalletId (body res) = 4 \<and> destWalletId (body res) = 1
   \<and> balanceOf (exampleDb 9007199254740992 10) 4 = Some 10
   \<and> balanceOf (exampleDb 9007199254740992 10) 1 = Some 9007199254740992
   \<and> balanceOf d' 4 = Some 9
   \<and> balanceOf d' 1 = Some 9007199254740992"
  by (simp add: transfer_defs example_defs)

text \<open>
  C5. The claim: the new balances are the exact integers \<open>source - amount\<close> and
  \<open>dest + amount\<close> for all 64-bit values, with no floating point on the path. The
  comparison and the two operations are done on BigInt, but both results pass through
  \<^verbatim>\<open>Number(...)\<close>, an IEEE double: a top-up of 1 from a treasury holding
  \<open>9007199254740994 = 2 ^ 53 + 2\<close> commits with \<open>newSourceBalance = 9007199254740992\<close>, not
  \<open>9007199254740993\<close>, and that value is written to the wallet.
\<close>

theorem new_balance_is_rounded:
  "\<exists>d' res.
     executeTransfer (exampleEnv ''3f8a'' 7) (exampleDb 9007199254740994 10)
       Topup 2 ''GOLD_COINS'' 1 (Some ''k1'') = (d', Inr res)
   \<and> \<not> idempotent res
   \<and> sourceWalletId (body res) = 1
   \<and> balanceOf (exampleDb 9007199254740994 10) 1 = Some 9007199254740994
   \<and> inBigint 9007199254740994
   \<and> newSourceBalance (body res) = 9007199254740992
   \<and> newSourceBalance (body res) \<noteq> 9007199254740994 - 1
   \<and> balanceOf d' 1 = Some 9007199254740992"
  by (simp add: transfer_defs example_defs)

section \<open>Owner and treasury in one wallet\<close>

lemma run_statements_ok:
  assumes "inBigint (newSourceBalance b)" and "0 \<le> newSourceBalance b"
    and "inBigint (newDestBalance b)" and "0 \<le> newDestBalance b"
    and "inBigint (amount b)" and "0 < amount b"
    and "length (description b) \<le> 256"
    and "walletExists d (sourceWalletId b)" and "walletExists d (destWalletId b)"
    and "truthy k \<longrightarrow> length (the k) \<le> 128"
    and "existing d k = []"
  shows "\<exists>d'. run d (statements e k b) = Inr d'"
proof -
  from assms(11) have "find (\<lambda>r. ik_key r = the k) (idempotency_keys d) = None" if "truthy k"
    using that by (simp add: existing_def find_as_filter split: list.splits)
  with assms show ?thesis
    by (auto simp: statements_def debitEntry_def creditEntry_def idempotencyRecord_def
          walletExists_def find_setBalance)
qed

lemma walletExists_balanceOf: "walletExists d i \<longleftrightarrow> balanceOf d i \<noteq> None"
  by (simp add: walletExists_def balanceOf_def)

text \<open>
  C9. The claim: when the owner's wallet and the treasury wallet are the same wallet,
  every flow and every amount not exceeding its balance commits and leaves the balance
  at the old balance plus the amount. Amended: when both resolve to the same wallet
  \<open>w\<close> holding \<open>b\<close>, a call of any flow that is not a replay, with \<open>0 < amount \<le> b\<close>,
  \<open>b + amount \<le> 2 ^ 53\<close>, a key of at most 128 characters and a description of at most 256,
  commits with \<open>w\<close> as source and destination; the second UPDATE, computed from the
  balance read before the first, leaves \<open>w\<close> at \<open>b + amount\<close>, and every other wallet
  keeps its balance, so the total grows by the amount.
\<close>

theorem self_transfer_adds_amount:
  assumes "resolveWalletId d userId assetCode = Inr w"
    and "resolveTreasuryWalletId d assetCode = Inr w"
    and "balanceOf d w = Some b"
    and "0 < amt" and "amt \<le> b" and "b + amt \<le> 2 ^ 53"
    and "existing d k = []"
    and "truthy k \<longrightarrow> length (the k) \<le> 128"
    and "length (describe e fl amt assetCode userId) \<le> 256"
  shows "\<exists>d' res.
           executeTransfer e d fl userId assetCode amt k = (d', Inr res)
         \<and> \<not> idempotent res
         \<and> sourceWalletId (body res) = w \<and> destWalletId (body res) = w
         \<and> balanceOf d' w = Some (b + amt)
         \<and> (\<forall>j. j \<noteq> w \<longrightarrow> balanceOf d' j = balanceOf d j)"
proof -
  let ?b = "responseOf e fl userId assetCode amt w w b b"
  have ep: "endpoints d fl userId assetCode = Inr (w, w)"
    using assms(1,2) by (cases fl) (simp_all add: endpoints_def)
  have prep: "prepare e d fl userId assetCode amt = Inr ?b"
    using ep assms(3,5) by (simp add: prepare_balances)
  have new: "newSourceBalance ?b = b - amt" "newDestBalance ?b = b + amt"
    using assms(4,5,6) by (simp_all add: responseOf_def Number_exact)
  have fields: "sourceWalletId ?b = w" "destWalletId ?b = w" "amount ?b = amt"
    "description ?b = describe e fl amt assetCode userId"
    by (simp_all add: responseOf_def)
  have ex: "walletExists d w"
    using assms(3) by (simp add: walletExists_balanceOf)
  have "\<exists>d'. run d (statements e k ?b) = Inr d'"
    using assms(4-9) ex by (intro run_statements_ok) (simp_all add: new fields inBigint_def)
  then obtain d' where run: "run d (statements e k ?b) = Inr d'" ..
  have exe: "executeTransfer e d fl userId assetCode amt k =
               (d', Inr \<lparr>idempotent = False, statusCode = 200, body = ?b\<rparr>)"
    by (simp add: executeTransfer_def assms(7) prep run)
  have bal: "balanceOf d' w = Some (b + amt)"
    using balanceOf_committed(1) [OF run] by (simp add: fields new)
  have other: "balanceOf d' j = balanceOf d j" if "j \<noteq> w" for j
    using balanceOf_committed(3) [OF run, of j] that by (simp add: fields)
  from exe bal other fields show ?thesis
    by simp
qed


theorem self_transfer_adds_amount_witness:
  "resolveWalletId (exampleDb 1000000000 1000) 1 ''GOLD_COINS'' = Inr 1
   \<and> resolveTreasuryWalletId (exampleDb 1000000000 1000) ''GOLD_COINS'' = Inr 1
   \<and> balanceOf (exampleDb 1000000000 1000) 1 = Some 1000000000
   \<and> (0 :: int) < 200 \<and> (200 :: int) \<le> 1000000000 \<and> (1000000000 :: int) + 200 \<le> 2 ^ 53
   \<and> existing (exampleDb 1000000000 1000) (Some ''k9'') = []
   \<and> truthy (Some ''k9'') \<and> length (the (Some ''k9'')) \<le> 128
   \<and> length (describe (exampleEnv ''a11c'' 20) Spend 200 ''GOLD_COINS'' 1) \<le> 256
   \<and> (\<exists>d' res.
         executeTransfer (exampleEnv ''a11c'' 20) (exampleDb 1000000000 1000)
           Spend 1 ''GOLD_COINS'' 200 (Some ''k9'') = (d', Inr res)
       \<and> \<not> idempotent res
       \<and> sourceWalletId (body res) = 1 \<and> destWalletId (body res) = 1
       \<and> balanceOf d' 1 = Some (1000000000 + 200)
       \<and> balanceOf d' 4 = balanceOf (exampleDb 1000000000 1000) 4)"
proof -
  let ?d = "exampleDb 1000000000 1000" and ?e = "exampleEnv ''a11c'' 20"
  have h: "resolveWalletId ?d 1 ''GOLD_COINS'' = Inr 1"
    "resolveTreasuryWalletId ?d ''GOLD_COINS'' = Inr 1"
    "balanceOf ?d 1 = Some 1000000000"
    "(0 :: int) < 200" "(200 :: int) \<le> 1000000000" "(1000000000 :: int) + 200 \<le> 2 ^ 53"
    "existing ?d (Some ''k9'') = []"
    "truthy (Some ''k9'') \<longrightarrow> length (the (Some ''k9'')) \<le> 128"
    "length (describe ?e Spend 200 ''GOLD_COINS'' 1) \<le> 256"
    by (simp_all add: resolveWalletId_def resolveTreasuryWalletId_def balanceOf_def existing_def
          example_defs)
  have k: "truthy (Some ''k9'')" "length (the (Some ''k9'')) \<le> 128"
    by simp_all
  from self_transfer_adds_amount [OF h] obtain d' res where
    r: "executeTransfer ?e ?d Spend 1 ''GOLD_COINS'' 200 (Some ''k9'') = (d', Inr res)"
       "\<not> idempotent res" "sourceWalletId (body res) = 1" "destWalletId (body res) = 1"
       "balanceOf d' 1 = Some (1000000000 + 200)"
       "\<forall>j. j \<noteq> 1 \<longrightarrow> balanceOf d' j = balanceOf ?d j"
    by blast
  from r(6) have "balanceOf d' 4 = balanceOf ?d 4"
    by simp
  with r(1-5) have
    "\<exists>d' res.
         executeTransfer ?e ?d Spend 1 ''GOLD_COINS'' 200 (Some ''k9'') = (d', Inr res)
       \<and> \<not> idempotent res
       \<and> sourceWalletId (body res) = 1 \<and> destWalletId (body res) = 1
       \<and> balanceOf d' 1 = Some (1000000000 + 200)
       \<and> balanceOf d' 4 = balanceOf ?d 4"
    by blast
  with h(1-7,9) k show ?thesis
    by (intro conjI)
qed

text \<open>
  The claim of C9 as stated fails: with the balance at \<open>2 ^ 53\<close> and amount 1 the call
  commits and the balance stays \<open>2 ^ 53\<close> (the sum is rounded); amount 0 does not exceed
  the balance and the call is rolled back by the CHECK on \<^verbatim>\<open>ledger_entries.amount\<close>;
  and a key of 129 characters is rejected by the column \<^verbatim>\<open>key VARCHAR(128)\<close>.
\<close>

theorem self_transfer_counterexample:
  "resolveWalletId (exampleDb 9007199254740992 10) 1 ''GOLD_COINS'' = Inr 1
   \<and> resolveTreasuryWalletId (exampleDb 9007199254740992 10) ''GOLD_COINS'' = Inr 1
   \<and> balanceOf (exampleDb 9007199254740992 10) 1 = Some 9007199254740992
   \<and> (1 :: int) \<le> 9007199254740992
   \<and> (\<exists>d' res.
         executeTransfer (exampleEnv ''3f8a'' 7) (exampleDb 9007199254740992 10)
           Spend 1 ''GOLD_COINS'' 1 (Some ''k1'') = (d', Inr res)
       \<and> \<not> idempotent res
       \<and> balanceOf d' 1 = Some 9007199254740992
       \<and> balanceOf d' 1 \<noteq> Some (9007199254740992 + 1))
   \<and> resolveWalletId (exampleDb 1000 10) 1 ''GOLD_COINS'' = Inr 1
   \<and> resolveTreasuryWalletId (exampleDb 1000 10) ''GOLD_COINS'' = Inr 1
   \<and> balanceOf (exampleDb 1000 10) 1 = Some 1000
   \<and> (0 :: int) \<le> 1000
   \<and> executeTransfer (exampleEnv ''3f8a'' 7) (exampleDb 1000 10)
         Spend 1 ''GOLD_COINS'' 0 (Some ''k1'') = (exampleDb 1000 10, Inl (DbError AmountCheck))
   \<and> (1 :: int) \<le> 1000
   \<and> executeTransfer (exampleEnv ''3f8a'' 7) (exampleDb 1000 10)
         Spend 1 ''GOLD_COINS'' 1 (Some (replicate 129 (CHR ''k''))) =
       (exampleDb 1000 10, Inl (DbError ValueTooLong))"
  by (simp add: transfer_defs example_defs)

section \<open>Calls without an idempotency key\<close>

lemma walletExists_keys [simp]:
  "walletExists (d\<lparr>idempotency_keys := ks\<rparr>) j = walletExists d j"
  by (simp add: walletExists_def)

lemma resolve_keys [simp]:
  "resolveWalletId (d\<lparr>idempotency_keys := ks\<rparr>) userId assetCode = resolveWalletId d userId assetCode"
  "resolveTreasuryWalletId (d\<lparr>idempotency_keys := ks\<rparr>) assetCode = resolveTreasuryWalletId d assetCode"
  "selectForUpdate (d\<lparr>idempotency_keys := ks\<rparr>) ids = selectForUpdate d ids"
  by (simp_all add: resolveWalletId_def resolveTreasuryWalletId_def selectForUpdate_def
        cong: if_cong)

lemma prepare_keys [simp]:
  "prepare e (d\<lparr>idempotency_keys := ks\<rparr>) fl userId assetCode amt = prepare e d fl userId assetCode amt"
  by (simp add: prepare_def endpoints_def cong: sum.case_cong prod.case_cong)












end
